theory Spec2Isabelle
  imports Complex_Main "HOL-Library.Word"
begin

section \<open>Configuration\<close>

text \<open>
  The fields of \<^verbatim>\<open>Settings\<close> (app/core/config.py) that the admission controller and the
  memory service read.
\<close>

record Settings =
  MEMORY_STORAGE_TYPE :: string
  RATE_LIMIT_REQUESTS :: int
  RATE_LIMIT_PERIOD :: int

text \<open>The values the fields have when the environment sets none of them.\<close>

definition default_settings :: Settings where
  "default_settings =
     \<lparr>MEMORY_STORAGE_TYPE = ''file'', RATE_LIMIT_REQUESTS = 60, RATE_LIMIT_PERIOD = 60\<rparr>"

datatype error =
  ZeroDivisionError
  | ConnectionError
  | OSError
  | ValueError

section \<open>Admission controller (app/utils/rate\_limiter.py)\<close>

text \<open>
  A bucket is the pair \<^verbatim>\<open>(tokens, last_refill_time)\<close>. Python's floats are idealised as
  reals: the model follows the arithmetic and the comparisons of the source, not the
  rounding of IEEE doubles.

  \<^verbatim>\<open>self._buckets\<close> is a \<^verbatim>\<open>defaultdict\<close>: reading a missing key calls the factory
  \<^verbatim>\<open>lambda: (float(settings.RATE_LIMIT_REQUESTS), time.time())\<close> and stores its result under
  the key. The clock is read once per call on line 78 (\<open>current_time\<close>) and once more by
  the factory when the bucket is created (\<open>factory_time\<close>); both readings are inputs of the
  model.
\<close>

type_synonym bucket = "real \<times> real"

record RateLimiter =
  buckets :: "string \<rightharpoonup> bucket"
  max_tokens :: int
  refill_rate :: real


definition buckets_getitem ::
  "Settings \<Rightarrow> real \<Rightarrow> (string \<rightharpoonup> bucket) \<Rightarrow> string \<Rightarrow> bucket \<times> (string \<rightharpoonup> bucket)" where
  "buckets_getitem cfg factory_time bs client_ip =
     (case bs client_ip of
        Some b \<Rightarrow> (b, bs)
      | None \<Rightarrow>
          (let b = (real_of_int (RATE_LIMIT_REQUESTS cfg), factory_time)
           in (b, bs(client_ip \<mapsto> b))))"

definition check_rate_limit ::
  "Settings \<Rightarrow> real \<Rightarrow> real \<Rightarrow> string \<Rightarrow> RateLimiter \<Rightarrow> (bool \<times> real) \<times> RateLimiter" where
  "check_rate_limit cfg current_time factory_time client_ip self =
     (let ((tokens, last_refill), bs) = buckets_getitem cfg factory_time (buckets self) client_ip;
          time_elapsed = current_time - last_refill;
          tokens_to_add = time_elapsed * refill_rate self;
          tokens = min (real_of_int (max_tokens self)) (tokens + tokens_to_add)
      in if tokens \<ge> 1
         then ((True, tokens - 1), self\<lparr>buckets := bs(client_ip \<mapsto> (tokens - 1, current_time))\<rparr>)
         else ((False, tokens), self\<lparr>buckets := bs(client_ip \<mapsto> (tokens, last_refill))\<rparr>))"

text \<open>
  A call of \<^verbatim>\<open>allow\<close> is an identity with the two clock readings. \<open>run_calls\<close> performs a
  list of calls in order and returns the limiter they leave; \<open>denied_for\<close> says that, in that
  run, every call made by the given identity is refused.
\<close>

type_synonym call = "string \<times> real \<times> real"

fun run_calls :: "Settings \<Rightarrow> RateLimiter \<Rightarrow> call list \<Rightarrow> RateLimiter" where
  "run_calls cfg self [] = self"
| "run_calls cfg self ((ip, now, ft) # cs) =
     run_calls cfg (snd (check_rate_limit cfg now ft ip self)) cs"



section \<open>Data model (app/models/schemas.py)\<close>

datatype AuthorizationTier = BASIC | ADVISORY | ADMIN_READY

datatype MessageRole = USER | ASSISTANT | SYSTEM

text \<open>
  A point in time as \<^verbatim>\<open>datetime.utcnow()\<close> returns it, counted in microseconds. Values of
  Python's \<^verbatim>\<open>Any\<close> that travel through JSON bodies and files are the datatype \<open>any\<close>.
\<close>

type_synonym datetime = int

datatype any =
  PyNone
  | PyBool bool
  | PyInt int
  | PyFloat real
  | PyStr string
  | PyDatetime datetime
  | PyList "any list"
  | PyDict "(string \<times> any) list"

record Message =
  role :: MessageRole
  content :: string
  timestamp :: datetime
  metadata :: "(string \<times> any) list option"

record UserPreferences =
  user_id :: string
  tone_preference :: "string option"
  max_response_length :: "int option"
  enable_clarification_questions :: bool
  custom_settings :: "(string \<times> any) list option"
  updated_at :: datetime

text \<open>
  The attributes of a \<^verbatim>\<open>CanonMemory\<close> object. Their declared types are two dictionaries, a
  bool, a str and an optional datetime, but \<^verbatim>\<open>setattr\<close> stores a value of any type (the
  model class does not validate assignments), so each attribute holds an \<open>any\<close>.
\<close>

record CanonMemory =
  system_knowledge :: any
  model_info :: any
  locked :: any
  version :: any
  last_updated :: any

record MemoryContext =
  session_memory :: "Message list"
  user_preferences :: "UserPreferences option"
  canon_memory :: "CanonMemory option"
  authorization_tier :: AuthorizationTier

text \<open>
  The base class of the models, pydantic's \<^verbatim>\<open>BaseModel\<close>, is not part of the repository.
  The two things the memory service needs from it are parameters of the model:
  \<^item> \<open>validate_canon\<close>: the constructor call \<^verbatim>\<open>CanonMemory(**data)\<close> on the five entries read
    from the canon file, \<open>None\<close> where it raises;
  \<^item> \<open>inherited_attr\<close>: the public attribute names, other than the five declared fields, that
    \<^verbatim>\<open>hasattr\<close> finds on a \<^verbatim>\<open>CanonMemory\<close> object (the methods and properties of the base
    class; \<^verbatim>\<open>model_dump\<close>, which \<^verbatim>\<open>update_canon_memory\<close> itself calls, is one).
\<close>

record pydantic =
  validate_canon :: "CanonMemory \<Rightarrow> CanonMemory option"
  inherited_attr :: "string \<Rightarrow> bool"

section \<open>Storage\<close>

text \<open>
  What a file or a Redis value holds: \<open>Holds x\<close> when decoding it yields \<open>x\<close>, \<open>Unreadable\<close> when
  reading, JSON decoding or building the records raises. The textual encoding (JSON, ISO
  timestamps) is abstracted. Session files are keyed by session id
  (\<^verbatim>\<open>SESSION_MEMORY_PATH/<id>.json\<close>), preference files by user id, Redis values by the ids
  behind the prefixes \<^verbatim>\<open>session:\<close> and \<^verbatim>\<open>preferences:\<close>; the canon is one file.
  \<open>fs_writable\<close> says whether creating, writing and removing files succeeds (else
  \<^verbatim>\<open>OSError\<close>), \<open>redis_reachable\<close> whether a Redis command gets an answer (else
  \<^verbatim>\<open>ConnectionError\<close>). The one-hour expiry of Redis session values is not modelled.
\<close>

datatype 'a blob = Unreadable | Holds 'a

record Storage =
  session_files :: "string \<rightharpoonup> Message list blob"
  preference_files :: "string \<rightharpoonup> UserPreferences blob"
  canon_file :: "CanonMemory blob option"
  fs_writable :: bool
  redis_reachable :: bool
  redis_sessions :: "string \<rightharpoonup> Message list blob"
  redis_preferences :: "string \<rightharpoonup> UserPreferences blob"

section \<open>Memory service (app/services/memory/memory\_service.py)\<close>

text \<open>
  The service object holds the storage type and the session cache \<^verbatim>\<open>_sessions\<close>. Every
  operation takes the object and the storage and returns its result with both, updated;
  a raised exception is the result \<open>Inl\<close>.
\<close>

record MemoryService =
  storage_type :: string
  sessions :: "string \<rightharpoonup> Message list"

type_synonym state = "MemoryService \<times> Storage"

text \<open>
  The constructor falls back to file storage when creating the Redis client raises
  (\<open>client_ok\<close> is whether it does not). The client connects lazily.
\<close>

definition MemoryService_init :: "Settings \<Rightarrow> bool \<Rightarrow> MemoryService" where
  "MemoryService_init cfg client_ok =
     \<lparr>storage_type =
        (if MEMORY_STORAGE_TYPE cfg = ''redis'' \<and> \<not> client_ok then ''file''
         else MEMORY_STORAGE_TYPE cfg),
      sessions = Map.empty\<rparr>"

subsection \<open>Session memory\<close>

text \<open>The stored form of a message keeps role, content and timestamp.\<close>

definition stored_message :: "Message \<Rightarrow> Message" where
  "stored_message msg = \<lparr>role = role msg, content = content msg, timestamp = timestamp msg, metadata = None\<rparr>"

definition sessions_get :: "MemoryService \<Rightarrow> string \<Rightarrow> Message list" where
  "sessions_get self session_id = (case sessions self session_id of None \<Rightarrow> [] | Some ms \<Rightarrow> ms)"

definition save_session_file :: "string \<Rightarrow> state \<Rightarrow> (error + unit) \<times> state" where
  "save_session_file session_id st =
     (case st of (self, env) \<Rightarrow>
        let messages_data = map stored_message (sessions_get self session_id)
        in if fs_writable env
           then (Inr (), self, env\<lparr>session_files := (session_files env)(session_id \<mapsto> Holds messages_data)\<rparr>)
           else (Inl OSError, self, env))"

definition save_session_redis :: "string \<Rightarrow> state \<Rightarrow> (error + unit) \<times> state" where
  "save_session_redis session_id st =
     (case st of (self, env) \<Rightarrow>
        let messages_data = map stored_message (sessions_get self session_id)
        in if redis_reachable env
           then (Inr (), self, env\<lparr>redis_sessions := (redis_sessions env)(session_id \<mapsto> Holds messages_data)\<rparr>)
           else (Inl ConnectionError, self, env))"

definition add_message_to_session ::
  "datetime \<Rightarrow> string \<Rightarrow> MessageRole \<Rightarrow> string \<Rightarrow> state \<Rightarrow> (error + unit) \<times> state" where
  "add_message_to_session now session_id r c st =
     (case st of (self, env) \<Rightarrow>
        let message = \<lparr>role = r, content = c, timestamp = now, metadata = None\<rparr>;
            cache = (if session_id \<notin> dom (sessions self)
                     then (sessions self)(session_id \<mapsto> []) else sessions self);
            self = self\<lparr>sessions := cache(session_id \<mapsto> (case cache session_id of
                                                            None \<Rightarrow> [] | Some ms \<Rightarrow> ms) @ [message])\<rparr>
        in if storage_type self = ''file'' then save_session_file session_id (self, env)
           else if storage_type self = ''redis'' then save_session_redis session_id (self, env)
           else (Inr (), self, env))"

definition load_session_file :: "string \<Rightarrow> state \<Rightarrow> Message list \<times> state" where
  "load_session_file session_id st =
     (case st of (self, env) \<Rightarrow>
        (case session_files env session_id of
           None \<Rightarrow> ([], self, env)
         | Some Unreadable \<Rightarrow> ([], self, env)
         | Some (Holds messages) \<Rightarrow>
             (messages, self\<lparr>sessions := (sessions self)(session_id \<mapsto> messages)\<rparr>, env)))"

text \<open>
  In \<^verbatim>\<open>_load_session_redis\<close> the command \<^verbatim>\<open>redis_client.get\<close> (line 168) stands before the
  \<^verbatim>\<open>try\<close> block, which covers the decoding only.
\<close>

definition load_session_redis :: "string \<Rightarrow> state \<Rightarrow> (error + Message list) \<times> state" where
  "load_session_redis session_id st =
     (case st of (self, env) \<Rightarrow>
        if \<not> redis_reachable env then (Inl ConnectionError, self, env)
        else (case redis_sessions env session_id of
                None \<Rightarrow> (Inr [], self, env)
              | Some Unreadable \<Rightarrow> (Inr [], self, env)
              | Some (Holds messages) \<Rightarrow>
                  (Inr messages, self\<lparr>sessions := (sessions self)(session_id \<mapsto> messages)\<rparr>, env)))"

definition get_session_history :: "string \<Rightarrow> state \<Rightarrow> (error + Message list) \<times> state" where
  "get_session_history session_id st =
     (case st of (self, env) \<Rightarrow>
        (case sessions self session_id of
           Some ms \<Rightarrow> (Inr ms, self, env)
         | None \<Rightarrow>
             if storage_type self = ''file''
             then (case load_session_file session_id (self, env) of (ms, st') \<Rightarrow> (Inr ms, st'))
             else if storage_type self = ''redis'' then load_session_redis session_id (self, env)
             else (Inr [], self, env)))"

definition clear_session :: "string \<Rightarrow> state \<Rightarrow> (error + unit) \<times> state" where
  "clear_session session_id st =
     (case st of (self, env) \<Rightarrow>
        let self = self\<lparr>sessions := (sessions self)(session_id := None)\<rparr>
        in if storage_type self = ''file''
           then (if session_id \<in> dom (session_files env)
                 then (if fs_writable env
                       then (Inr (), self, env\<lparr>session_files := (session_files env)(session_id := None)\<rparr>)
                       else (Inl OSError, self, env))
                 else (Inr (), self, env))
           else if storage_type self = ''redis''
           then (if redis_reachable env
                 then (Inr (), self, env\<lparr>redis_sessions := (redis_sessions env)(session_id := None)\<rparr>)
                 else (Inl ConnectionError, self, env))
           else (Inr (), self, env))"

text \<open>
  A fresh process: a new service object, with an empty cache, over the same storage.
\<close>

definition restart :: "Settings \<Rightarrow> bool \<Rightarrow> state \<Rightarrow> state" where
  "restart cfg client_ok st = (MemoryService_init cfg client_ok, snd st)"

text \<open>
  A list of appends to one session, each with the clock reading its message is stamped
  with; an append that raises has updated the cache already, and the caller goes on.
\<close>

fun add_messages :: "string \<Rightarrow> (datetime \<times> MessageRole \<times> string) list \<Rightarrow> state \<Rightarrow> state" where
  "add_messages session_id [] st = st"
| "add_messages session_id ((now, r, c) # rest) st =
     add_messages session_id rest (snd (add_message_to_session now session_id r c st))"


text \<open>
  A session id is unknown when it has no cache entry and the lookup in the durable backend
  answers that there is no entry.
\<close>

definition unknown_session :: "string \<Rightarrow> state \<Rightarrow> bool" where
  "unknown_session session_id st =
     (case st of (self, env) \<Rightarrow>
        sessions self session_id = None \<and>
        (if storage_type self = ''file'' then session_files env session_id = None
         else if storage_type self = ''redis''
         then redis_reachable env \<and> redis_sessions env session_id = None
         else True))"

subsection \<open>User preferences\<close>

definition load_preferences_file :: "string \<Rightarrow> Storage \<Rightarrow> UserPreferences option" where
  "load_preferences_file uid env =
     (case preference_files env uid of
        None \<Rightarrow> None
      | Some Unreadable \<Rightarrow> None
      | Some (Holds p) \<Rightarrow> Some p)"

definition load_preferences_redis :: "string \<Rightarrow> Storage \<Rightarrow> error + UserPreferences option" where
  "load_preferences_redis uid env =
     (if \<not> redis_reachable env then Inl ConnectionError
      else (case redis_preferences env uid of
              None \<Rightarrow> Inr None
            | Some Unreadable \<Rightarrow> Inr None
            | Some (Holds p) \<Rightarrow> Inr (Some p)))"

definition get_user_preferences :: "string \<Rightarrow> state \<Rightarrow> error + UserPreferences option" where
  "get_user_preferences uid st =
     (case st of (self, env) \<Rightarrow>
        if storage_type self = ''file'' then Inr (load_preferences_file uid env)
        else if storage_type self = ''redis'' then load_preferences_redis uid env
        else Inr None)"

definition save_preferences_file :: "UserPreferences \<Rightarrow> Storage \<Rightarrow> (error + unit) \<times> Storage" where
  "save_preferences_file preferences env =
     (if fs_writable env
      then (Inr (), env\<lparr>preference_files := (preference_files env)(user_id preferences \<mapsto> Holds preferences)\<rparr>)
      else (Inl OSError, env))"

definition save_preferences_redis :: "UserPreferences \<Rightarrow> Storage \<Rightarrow> (error + unit) \<times> Storage" where
  "save_preferences_redis preferences env =
     (if redis_reachable env
      then (Inr (), env\<lparr>redis_preferences := (redis_preferences env)(user_id preferences \<mapsto> Holds preferences)\<rparr>)
      else (Inl ConnectionError, env))"

text \<open>
  \<^verbatim>\<open>save_user_preferences\<close> stamps the object it is given and persists it; the stamped object
  is returned with the result.
\<close>

definition save_user_preferences ::
  "datetime \<Rightarrow> UserPreferences \<Rightarrow> state \<Rightarrow> (error + unit) \<times> UserPreferences \<times> state" where
  "save_user_preferences now preferences st =
     (case st of (self, env) \<Rightarrow>
        let preferences = preferences\<lparr>updated_at := now\<rparr>
        in if storage_type self = ''file''
           then (case save_preferences_file preferences env of (r, env') \<Rightarrow> (r, preferences, self, env'))
           else if storage_type self = ''redis''
           then (case save_preferences_redis preferences env of (r, env') \<Rightarrow> (r, preferences, self, env'))
           else (Inr (), preferences, self, env))"

text \<open>
  The endpoint \<^verbatim>\<open>PUT /preferences\<close> (app/api/memory.py): the body has been parsed into a
  \<^verbatim>\<open>UserPreferences\<close>, whose \<^verbatim>\<open>user_id\<close> is declared as a plain \<^verbatim>\<open>str\<close>; the handler saves it
  and answers with it, or with status 500 when the save raises.
\<close>

datatype http_error = HTTPException nat

definition update_user_preferences ::
  "datetime \<Rightarrow> UserPreferences \<Rightarrow> state \<Rightarrow> (http_error + UserPreferences) \<times> state" where
  "update_user_preferences now preferences st =
     (case save_user_preferences now preferences st of
        (Inr u, preferences', st') \<Rightarrow> (Inr preferences', st')
      | (Inl e, preferences', st') \<Rightarrow> (Inl (HTTPException 500), st'))"

subsection \<open>Canon memory\<close>

definition get_canon_memory :: "pydantic \<Rightarrow> Storage \<Rightarrow> CanonMemory option" where
  "get_canon_memory lib env =
     (case canon_file env of
        None \<Rightarrow> None
      | Some Unreadable \<Rightarrow> None
      | Some (Holds data) \<Rightarrow> validate_canon lib data)"

text \<open>\<^verbatim>\<open>d.get(key, dflt)\<close> on a dictionary given as the list of its items.\<close>

definition dict_get :: "(string \<times> any) list \<Rightarrow> string \<Rightarrow> any \<Rightarrow> any" where
  "dict_get d key dflt = (case map_of d key of None \<Rightarrow> dflt | Some v \<Rightarrow> v)"

definition CanonMemory_fields :: "string list" where
  "CanonMemory_fields = [''system_knowledge'', ''model_info'', ''locked'', ''version'', ''last_updated'']"

definition hasattr :: "pydantic \<Rightarrow> string \<Rightarrow> bool" where
  "hasattr lib key = (key \<in> set CanonMemory_fields \<or> inherited_attr lib key)"

text \<open>
  \<^verbatim>\<open>setattr\<close> on a model object assigns a declared field without validating the value; for
  any other public name the base class raises \<^verbatim>\<open>ValueError\<close> (object has no field).
\<close>

definition setattr :: "CanonMemory \<Rightarrow> string \<Rightarrow> any \<Rightarrow> error + CanonMemory" where
  "setattr canon key v =
     (if key = ''system_knowledge'' then Inr (canon\<lparr>system_knowledge := v\<rparr>)
      else if key = ''model_info'' then Inr (canon\<lparr>model_info := v\<rparr>)
      else if key = ''locked'' then Inr (canon\<lparr>locked := v\<rparr>)
      else if key = ''version'' then Inr (canon\<lparr>version := v\<rparr>)
      else if key = ''last_updated'' then Inr (canon\<lparr>last_updated := v\<rparr>)
      else Inl ValueError)"

text \<open>
  The loop \<^verbatim>\<open>for key, value in updates.items()\<close>; the dictionary is the list of its items in
  order, with distinct keys.
\<close>

fun apply_updates :: "pydantic \<Rightarrow> CanonMemory \<Rightarrow> (string \<times> any) list \<Rightarrow> error + CanonMemory" where
  "apply_updates lib canon [] = Inr canon"
| "apply_updates lib canon ((key, v) # rest) =
     (if hasattr lib key
      then (case setattr canon key v of
              Inl e \<Rightarrow> Inl e
            | Inr canon' \<Rightarrow> apply_updates lib canon' rest)
      else apply_updates lib canon rest)"

definition update_canon_memory ::
  "pydantic \<Rightarrow> datetime \<Rightarrow> (string \<times> any) list \<Rightarrow> AuthorizationTier \<Rightarrow> Storage \<Rightarrow> bool \<times> Storage" where
  "update_canon_memory lib now updates tier env =
     (if tier \<noteq> ADMIN_READY then (False, env)
      else (case get_canon_memory lib env of
              None \<Rightarrow> (False, env)
            | Some canon \<Rightarrow>
                (case apply_updates lib canon updates of
                   Inl e \<Rightarrow> (False, env)
                 | Inr canon \<Rightarrow>
                     let canon = canon\<lparr>last_updated := PyDatetime now\<rparr>
                     in if fs_writable env
                        then (True, env\<lparr>canon_file := Some (Holds canon)\<rparr>)
                        else (False, env))))"

subsection \<open>Context weave\<close>

definition build_memory_context ::
  "pydantic \<Rightarrow> string \<Rightarrow> string option \<Rightarrow> AuthorizationTier \<Rightarrow> state \<Rightarrow> (error + MemoryContext) \<times> state" where
  "build_memory_context lib session_id uid tier st =
     (case get_session_history session_id st of
        (Inl e, st') \<Rightarrow> (Inl e, st')
      | (Inr history, st') \<Rightarrow>
          (case (case uid of
                   None \<Rightarrow> Inr None
                 | Some u \<Rightarrow> if u = [] then Inr None else get_user_preferences u st') of
             Inl e \<Rightarrow> (Inl e, st')
           | Inr prefs \<Rightarrow>
               (Inr \<lparr>session_memory = history,
                     user_preferences = prefs,
                     canon_memory = get_canon_memory lib (snd st'),
                     authorization_tier = tier\<rparr>, st')))"

subsection \<open>Session ids\<close>

text \<open>
  \<^verbatim>\<open>uuid.uuid4().hex\<close> is the 128-bit value of the identifier written as 32 lowercase
  hexadecimal digits, most significant first; the random identifier is an input.
\<close>

definition hex_digits :: string where
  "hex_digits = ''0123456789abcdef''"

definition hex_digit :: "nat \<Rightarrow> char" where
  "hex_digit n = hex_digits ! n"

definition UUID_hex :: "128 word \<Rightarrow> string" where
  "UUID_hex u = map (\<lambda>i. hex_digit (unat (and (drop_bit (4 * (31 - i)) u) 15))) [0..<32]"

definition generate_session_id :: "128 word \<Rightarrow> string" where
  "generate_session_id u = ''session_'' @ take 16 (UUID_hex u)"

section \<open>Input validation (app/utils/validation.py)\<close>

definition MAX_SESSION_ID_LENGTH :: nat where
  "MAX_SESSION_ID_LENGTH = 64"

definition MAX_USER_ID_LENGTH :: nat where
  "MAX_USER_ID_LENGTH = 128"

text \<open>
  \<^verbatim>\<open>re.match\<close> of \<^verbatim>\<open>^[...]+$\<close>: one or more characters of the class, up to the end of the string
  or up to a newline that ends it (Python's \<^verbatim>\<open>$\<close>).
\<close>

definition class_match :: "string \<Rightarrow> string \<Rightarrow> bool" where
  "class_match cls s =
     (let body = (if s \<noteq> [] \<and> last s = CHR 0x0A then butlast s else s)
      in body \<noteq> [] \<and> list_all (\<lambda>c. c \<in> set cls) body)"

definition alnum :: string where
  "alnum = ''abcdefghijklmnopqrstuvwxyzABCDEFGHIJKLMNOPQRSTUVWXYZ0123456789''"

definition SESSION_ID_PATTERN :: "string \<Rightarrow> bool" where
  "SESSION_ID_PATTERN = class_match (alnum @ ''_-'')"

definition USER_ID_PATTERN :: "string \<Rightarrow> bool" where
  "USER_ID_PATTERN = class_match (alnum @ ''_@.-'')"

definition validate_session_id :: "string \<Rightarrow> bool \<times> string option" where
  "validate_session_id session_id =
     (if session_id = [] then (False, Some ''Session ID cannot be empty'')
      else if length session_id > MAX_SESSION_ID_LENGTH
      then (False, Some ''Session ID exceeds maximum length of 64'')
      else if \<not> SESSION_ID_PATTERN session_id
      then (False, Some ''Session ID contains invalid characters'')
      else (True, None))"

definition validate_user_id :: "string \<Rightarrow> bool \<times> string option" where
  "validate_user_id uid =
     (if uid = [] then (False, Some ''User ID cannot be empty'')
      else if length uid > MAX_USER_ID_LENGTH
      then (False, Some ''User ID exceeds maximum length of 128'')
      else if \<not> USER_ID_PATTERN uid
      then (False, Some ''User ID contains invalid characters'')
      else (True, None))"

section \<open>Bootstrap (app/core/init\_db.py)\<close>

text \<open>
  \<^verbatim>\<open>init_canon_memory\<close> writes the canon file once, when there is none. The object it writes
  has no entry \<^verbatim>\<open>last_updated\<close>; the model class reads the missing entry as \<^verbatim>\<open>None\<close>.
\<close>

definition canon_data :: CanonMemory where
  "canon_data =
     \<lparr>system_knowledge = PyDict
        [(''developer'', PyStr ''VelaPlex Systems''),
         (''application'', PyStr ''Souent''),
         (''purpose'', PyStr ''Logic-first AI chatbot powered by Souent Logic Models'')],
      model_info = PyDict
        [(''current_model'', PyStr ''SLM-A1''),
         (''model_name'', PyStr ''Anthroi-1''),
         (''version'', PyStr ''1.0.0''),
         (''characteristics'', PyList
            [PyStr ''Logic-first reasoning'',
             PyStr ''Conservative inference'',
             PyStr ''Explicit uncertainty handling'',
             PyStr ''No emotional simulation'',
             PyStr ''No immersive roleplay'']),
         (''capabilities'', PyList
            [PyStr ''Question answering with uncertainty markers'',
             PyStr ''Code analysis and debugging'',
             PyStr ''Technical documentation analysis'',
             PyStr ''Problem-solving and strategic thinking'',
             PyStr ''Data analysis and interpretation''])],
      locked = PyBool True,
      version = PyStr ''1.0.0'',
      last_updated = PyNone\<rparr>"

definition init_canon_memory :: "Storage \<Rightarrow> (error + unit) \<times> Storage" where
  "init_canon_memory env =
     (if canon_file env \<noteq> None then (Inr (), env)
      else if fs_writable env then (Inr (), env\<lparr>canon_file := Some (Holds canon_data)\<rparr>)
      else (Inl OSError, env))"

section \<open>Concrete inputs\<close>

text \<open>
  Inputs on which the operations are evaluated below: a storage with nothing in it, where
  files can be written and Redis answers; the same storage after the bootstrap; and an
  instance of the base-class parameters in which validation accepts the five entries as
  they are and \<^verbatim>\<open>model_dump\<close> is the inherited attribute.
\<close>

definition blank_storage :: Storage where
  "blank_storage =
     \<lparr>session_files = Map.empty,
      preference_files = Map.empty,
      canon_file = None,
      fs_writable = True,
      redis_reachable = True,
      redis_sessions = Map.empty,
      redis_preferences = Map.empty\<rparr>"

definition booted_storage :: Storage where
  "booted_storage = snd (init_canon_memory blank_storage)"

definition base_model :: pydantic where
  "base_model = \<lparr>validate_canon = Some, inherited_attr = (\<lambda>key. key = ''model_dump'')\<rparr>"

definition file_service :: MemoryService where
  "file_service = \<lparr>storage_type = ''file'', sessions = Map.empty\<rparr>"

definition redis_service :: MemoryService where
  "redis_service = \<lparr>storage_type = ''redis'', sessions = Map.empty\<rparr>"

section \<open>Properties of the admission controller\<close>




lemma check_rate_limit_other:
  "ip \<noteq> other \<Longrightarrow> buckets (snd (check_rate_limit cfg now ft ip self)) other = buckets self other"
  by (auto simp: check_rate_limit_def buckets_getitem_def Let_def split: prod.splits option.splits)



text \<open>
  A refused call stores the refilled amount and keeps \<open>last_refill\<close>, so the next call adds
  the refill for the whole time since \<open>last_refill\<close> to an amount that already contains part
  of it. With capacity 1 and one token per second, an empty bucket last refilled at time 0
  refuses a call at 0.6 and permits the next one at 0.7.
\<close>

lemma refused_call_stores_refill:
  "check_rate_limit \<lparr>MEMORY_STORAGE_TYPE = ''file'', RATE_LIMIT_REQUESTS = 1, RATE_LIMIT_PERIOD = 1\<rparr>
      (3/5) (3/5) ''10.0.0.1'' \<lparr>buckets = [''10.0.0.1'' \<mapsto> (0, 0)], max_tokens = 1, refill_rate = 1\<rparr>
     = ((False, 3/5), \<lparr>buckets = [''10.0.0.1'' \<mapsto> (3/5, 0)], max_tokens = 1, refill_rate = 1\<rparr>)
   \<and> check_rate_limit \<lparr>MEMORY_STORAGE_TYPE = ''file'', RATE_LIMIT_REQUESTS = 1, RATE_LIMIT_PERIOD = 1\<rparr>
      (7/10) (7/10) ''10.0.0.1'' \<lparr>buckets = [''10.0.0.1'' \<mapsto> (3/5, 0)], max_tokens = 1, refill_rate = 1\<rparr>
     = ((True, 0), \<lparr>buckets = [''10.0.0.1'' \<mapsto> (0, 7/10)], max_tokens = 1, refill_rate = 1\<rparr>)"
  by (simp add: check_rate_limit_def buckets_getitem_def Let_def)



text \<open>
  C6. A run of calls none of which is made by identity \<open>B\<close> (in particular any number of
  calls by a different identity \<open>A\<close>, permitted or refused) leaves the entry of \<open>B\<close> in the
  bucket table, tokens and last refill time, as it was.
\<close>

theorem allow_frame:
  assumes "\<forall>c \<in> set cs. fst c \<noteq> B"
  shows "buckets (run_calls cfg self cs) B = buckets self B"
  using assms
  by (induction cfg self cs rule: run_calls.induct) (simp_all add: check_rate_limit_other)

theorem allow_frame_witness:
  "buckets (run_calls \<lparr>MEMORY_STORAGE_TYPE = ''file'', RATE_LIMIT_REQUESTS = 1, RATE_LIMIT_PERIOD = 1\<rparr>
      \<lparr>buckets = [''A'' \<mapsto> (1, 0), ''B'' \<mapsto> (1, 0)], max_tokens = 1, refill_rate = 1\<rparr>
      [(''A'', 0, 0), (''A'', 1/4, 1/4), (''A'', 1/2, 1/2)]) ''B'' = Some (1, 0)
   \<and> \<not> fst (fst (check_rate_limit \<lparr>MEMORY_STORAGE_TYPE = ''file'', RATE_LIMIT_REQUESTS = 1, RATE_LIMIT_PERIOD = 1\<rparr>
        (1/4) (1/4) ''A'' \<lparr>buckets = [''A'' \<mapsto> (0, 0), ''B'' \<mapsto> (1, 0)], max_tokens = 1, refill_rate = 1\<rparr>))"
proof -
  have "\<forall>c \<in> set [(''A'', 0::real, 0::real), (''A'', 1/4, 1/4), (''A'', 1/2, 1/2)]. fst c \<noteq> ''B''"
    by simp
  from allow_frame [OF this] show ?thesis
    by (simp add: check_rate_limit_def buckets_getitem_def Let_def)
qed

section \<open>Properties of the session store\<close>





lemma get_session_history_unknown:
  "unknown_session sid st \<Longrightarrow> fst (get_session_history sid st) = Inr []"
  by (cases st)
     (auto simp: unknown_session_def get_session_history_def load_session_file_def
        load_session_redis_def split: if_splits)



text \<open>
  C7. When \<^verbatim>\<open>clear_session\<close> has returned, \<^verbatim>\<open>get_session_history\<close> for the same id returns the
  empty list, in the same process and in a fresh one (a new service object with an empty
  cache, built over the same storage with the same storage type).
\<close>

theorem clear_then_get:
  assumes "clear_session session_id st = (Inr (), st')"
      and "storage_type (MemoryService_init cfg client_ok) = storage_type (fst st)"
  shows "fst (get_session_history session_id st') = Inr []
       \<and> fst (get_session_history session_id (restart cfg client_ok st')) = Inr []"
proof -
  obtain self env where st: "st = (self, env)" by (cases st)
  have empty: "sessions (MemoryService_init cfg client_ok) session_id = None"
    by (simp add: MemoryService_init_def)
  have ty: "storage_type (MemoryService_init cfg client_ok) = storage_type self"
    using assms(2) st by simp
  have u1: "unknown_session session_id st'"
    using assms(1)
    by (auto simp: st clear_session_def unknown_session_def Let_def split: if_splits)
  then have u2: "unknown_session session_id (MemoryService_init cfg client_ok, snd st')"
    using assms(1) empty ty
    by (auto simp: st clear_session_def unknown_session_def Let_def split: if_splits)
  from u1 u2 show ?thesis by (simp add: get_session_history_unknown restart_def)
qed

theorem clear_then_get_witness:
  "fst (get_session_history ''s1''
         (add_messages ''s1'' [(1, USER, ''hi''), (2, ASSISTANT, ''hello'')] (file_service, blank_storage)))
     = Inr [\<lparr>role = USER, content = ''hi'', timestamp = 1, metadata = None\<rparr>,
            \<lparr>role = ASSISTANT, content = ''hello'', timestamp = 2, metadata = None\<rparr>]
   \<and> session_files
         (snd (add_messages ''s1'' [(1, USER, ''hi''), (2, ASSISTANT, ''hello'')] (file_service, blank_storage)))
         ''s1''
     = Some (Holds [\<lparr>role = USER, content = ''hi'', timestamp = 1, metadata = None\<rparr>,
                    \<lparr>role = ASSISTANT, content = ''hello'', timestamp = 2, metadata = None\<rparr>])
   \<and> fst (clear_session ''s1''
         (add_messages ''s1'' [(1, USER, ''hi''), (2, ASSISTANT, ''hello'')] (file_service, blank_storage)))
     = Inr ()
   \<and> fst (get_session_history ''s1'' (snd (clear_session ''s1''
         (add_messages ''s1'' [(1, USER, ''hi''), (2, ASSISTANT, ''hello'')] (file_service, blank_storage)))))
     = Inr []
   \<and> fst (get_session_history ''s1'' (restart default_settings True (snd (clear_session ''s1''
         (add_messages ''s1'' [(1, USER, ''hi''), (2, ASSISTANT, ''hello'')] (file_service, blank_storage))))))
     = Inr []"
proof -
  let ?st = "add_messages ''s1'' [(1, USER, ''hi''), (2, ASSISTANT, ''hello'')] (file_service, blank_storage)"
  have st: "?st =
     (\<lparr>storage_type = ''file'',
       sessions = [''s1'' \<mapsto> [\<lparr>role = USER, content = ''hi'', timestamp = 1, metadata = None\<rparr>,
            \<lparr>role = ASSISTANT, content = ''hello'', timestamp = 2, metadata = None\<rparr>]]\<rparr>,
      blank_storage\<lparr>session_files := [''s1'' \<mapsto> Holds [\<lparr>role = USER, content = ''hi'', timestamp = 1, metadata = None\<rparr>,
            \<lparr>role = ASSISTANT, content = ''hello'', timestamp = 2, metadata = None\<rparr>]]\<rparr>)"
    by (simp add: add_message_to_session_def save_session_file_def sessions_get_def stored_message_def
          file_service_def blank_storage_def Let_def)
  have g: "fst (get_session_history ''s1'' ?st) = Inr [\<lparr>role = USER, content = ''hi'', timestamp = 1, metadata = None\<rparr>,
            \<lparr>role = ASSISTANT, content = ''hello'', timestamp = 2, metadata = None\<rparr>]"
    unfolding st by (simp add: get_session_history_def)
  have d: "session_files (snd ?st) ''s1'' = Some (Holds [\<lparr>role = USER, content = ''hi'', timestamp = 1, metadata = None\<rparr>,
                    \<lparr>role = ASSISTANT, content = ''hello'', timestamp = 2, metadata = None\<rparr>])"
    unfolding st by simp
  have c: "fst (clear_session ''s1'' ?st) = Inr ()"
    unfolding st by (simp add: clear_session_def blank_storage_def Let_def)
  then have c': "clear_session ''s1'' ?st = (Inr (), snd (clear_session ''s1'' ?st))"
    by (metis prod.collapse)
  have ty: "storage_type (MemoryService_init default_settings True) = storage_type (fst ?st)"
    unfolding st by (simp add: MemoryService_init_def default_settings_def)
  from clear_then_get [OF c' ty] g d c show ?thesis by simp
qed

section \<open>Properties of the canon store\<close>

lemma booted_storage_canon: "canon_file booted_storage = Some (Holds canon_data)"
  by (simp add: booted_storage_def init_canon_memory_def blank_storage_def)

lemma get_canon_booted: "get_canon_memory base_model booted_storage = Some canon_data"
  by (simp add: get_canon_memory_def booted_storage_canon base_model_def)

lemma dict_get_Nil: "dict_get [] key d = d"
  by (simp add: dict_get_def)

lemma dict_get_Cons:
  "dict_get ((k, v) # rest) key d = (if key = k then v else dict_get rest key d)"
  by (simp add: dict_get_def)

lemma dict_get_absent: "key \<notin> fst ` set rest \<Longrightarrow> dict_get rest key d = d"
  by (simp add: dict_get_def map_of_eq_None_iff [THEN iffD2])

lemma apply_updates_fields:
  assumes "distinct (map fst updates)"
      and "\<forall>key \<in> fst ` set updates. \<not> inherited_attr lib key"
  shows "apply_updates lib canon updates =
           Inr \<lparr>system_knowledge = dict_get updates ''system_knowledge'' (system_knowledge canon),
                model_info = dict_get updates ''model_info'' (model_info canon),
                locked = dict_get updates ''locked'' (locked canon),
                version = dict_get updates ''version'' (version canon),
                last_updated = dict_get updates ''last_updated'' (last_updated canon)\<rparr>"
  using assms
proof (induction updates arbitrary: canon)
  case Nil
  then show ?case by (simp add: dict_get_Nil)
next
  case (Cons kv rest)
  obtain k v where kv: "kv = (k, v)" by (cases kv)
  have d: "distinct (map fst rest)" and fresh: "k \<notin> fst ` set rest"
    using Cons.prems(1) kv by auto
  have inh: "\<forall>key \<in> fst ` set rest. \<not> inherited_attr lib key" "\<not> inherited_attr lib k"
    using Cons.prems(2) kv by auto
  note IH = Cons.IH [OF d inh(1)]
  show ?case
  proof (cases "k \<in> set CanonMemory_fields")
    case False
    then have "\<not> hasattr lib k" using inh(2) by (simp add: hasattr_def)
    moreover from False have "k \<noteq> ''system_knowledge''" "k \<noteq> ''model_info''" "k \<noteq> ''locked''"
      "k \<noteq> ''version''" "k \<noteq> ''last_updated''"
      by (auto simp: CanonMemory_fields_def)
    ultimately show ?thesis
      by (simp add: kv IH dict_get_Cons)
  next
    case True
    then have h: "hasattr lib k" by (simp add: hasattr_def)
    from True have "k = ''system_knowledge'' \<or> k = ''model_info'' \<or> k = ''locked''
      \<or> k = ''version'' \<or> k = ''last_updated''"
      by (simp add: CanonMemory_fields_def)
    then show ?thesis
    proof (elim disjE)
      assume e1: "k = ''system_knowledge''"
      note fresh' = fresh [unfolded e1]
      have "apply_updates lib canon (kv # rest) = apply_updates lib (canon\<lparr>system_knowledge := v\<rparr>) rest"
        unfolding kv e1 by (simp add: hasattr_def CanonMemory_fields_def setattr_def)
      also have "\<dots> = Inr \<lparr>system_knowledge = dict_get rest ''system_knowledge'' (system_knowledge (canon\<lparr>system_knowledge := v\<rparr>)),
                model_info = dict_get rest ''model_info'' (model_info (canon\<lparr>system_knowledge := v\<rparr>)),
                locked = dict_get rest ''locked'' (locked (canon\<lparr>system_knowledge := v\<rparr>)),
                version = dict_get rest ''version'' (version (canon\<lparr>system_knowledge := v\<rparr>)),
                last_updated = dict_get rest ''last_updated'' (last_updated (canon\<lparr>system_knowledge := v\<rparr>))\<rparr>"
        by (rule IH)
      finally show ?thesis
        unfolding kv e1 by (simp add: dict_get_Cons dict_get_absent [OF fresh'])
    next
      assume e2: "k = ''model_info''"
      note fresh' = fresh [unfolded e2]
      have "apply_updates lib canon (kv # rest) = apply_updates lib (canon\<lparr>model_info := v\<rparr>) rest"
        unfolding kv e2 by (simp add: hasattr_def CanonMemory_fields_def setattr_def)
      also have "\<dots> = Inr \<lparr>system_knowledge = dict_get rest ''system_knowledge'' (system_knowledge (canon\<lparr>model_info := v\<rparr>)),
                model_info = dict_get rest ''model_info'' (model_info (canon\<lparr>model_info := v\<rparr>)),
                locked = dict_get rest ''locked'' (locked (canon\<lparr>model_info := v\<rparr>)),
                version = dict_get rest ''version'' (version (canon\<lparr>model_info := v\<rparr>)),
                last_updated = dict_get rest ''last_updated'' (last_updated (canon\<lparr>model_info := v\<rparr>))\<rparr>"
        by (rule IH)
      finally show ?thesis
        unfolding kv e2 by (simp add: dict_get_Cons dict_get_absent [OF fresh'])
    next
      assume e3: "k = ''locked''"
      note fresh' = fresh [unfolded e3]
      have "apply_updates lib canon (kv # rest) = apply_updates lib (canon\<lparr>locked := v\<rparr>) rest"
        unfolding kv e3 by (simp add: hasattr_def CanonMemory_fields_def setattr_def)
      also have "\<dots> = Inr \<lparr>system_knowledge = dict_get rest ''system_knowledge'' (system_knowledge (canon\<lparr>locked := v\<rparr>)),
                model_info = dict_get rest ''model_info'' (model_info (canon\<lparr>locked := v\<rparr>)),
                locked = dict_get rest ''locked'' (locked (canon\<lparr>locked := v\<rparr>)),
                version = dict_get rest ''version'' (version (canon\<lparr>locked := v\<rparr>)),
                last_updated = dict_get rest ''last_updated'' (last_updated (canon\<lparr>locked := v\<rparr>))\<rparr>"
        by (rule IH)
      finally show ?thesis
        unfolding kv e3 by (simp add: dict_get_Cons dict_get_absent [OF fresh'])
    next
      assume e4: "k = ''version''"
      note fresh' = fresh [unfolded e4]
      have "apply_updates lib canon (kv # rest) = apply_updates lib (canon\<lparr>version := v\<rparr>) rest"
        unfolding kv e4 by (simp add: hasattr_def CanonMemory_fields_def setattr_def)
      also have "\<dots> = Inr \<lparr>system_knowledge = dict_get rest ''system_knowledge'' (system_knowledge (canon\<lparr>version := v\<rparr>)),
                model_info = dict_get rest ''model_info'' (model_info (canon\<lparr>version := v\<rparr>)),
                locked = dict_get rest ''locked'' (locked (canon\<lparr>version := v\<rparr>)),
                version = dict_get rest ''version'' (version (canon\<lparr>version := v\<rparr>)),
                last_updated = dict_get rest ''last_updated'' (last_updated (canon\<lparr>version := v\<rparr>))\<rparr>"
        by (rule IH)
      finally show ?thesis
        unfolding kv e4 by (simp add: dict_get_Cons dict_get_absent [OF fresh'])
    next
      assume e5: "k = ''last_updated''"
      note fresh' = fresh [unfolded e5]
      have "apply_updates lib canon (kv # rest) = apply_updates lib (canon\<lparr>last_updated := v\<rparr>) rest"
        unfolding kv e5 by (simp add: hasattr_def CanonMemory_fields_def setattr_def)
      also have "\<dots> = Inr \<lparr>system_knowledge = dict_get rest ''system_knowledge'' (system_knowledge (canon\<lparr>last_updated := v\<rparr>)),
                model_info = dict_get rest ''model_info'' (model_info (canon\<lparr>last_updated := v\<rparr>)),
                locked = dict_get rest ''locked'' (locked (canon\<lparr>last_updated := v\<rparr>)),
                version = dict_get rest ''version'' (version (canon\<lparr>last_updated := v\<rparr>)),
                last_updated = dict_get rest ''last_updated'' (last_updated (canon\<lparr>last_updated := v\<rparr>))\<rparr>"
        by (rule IH)
      finally show ?thesis
        unfolding kv e5 by (simp add: dict_get_Cons dict_get_absent [OF fresh'])
    qed
  qed
qed

text \<open>
  With recognised names only, that is when no key of the update is an attribute inherited
  from the base class, an authorised update of an initialised canon succeeds when the file
  can be written: each of \<^verbatim>\<open>system_knowledge\<close>, \<^verbatim>\<open>model_info\<close>, \<^verbatim>\<open>locked\<close> and \<^verbatim>\<open>version\<close>
  takes the value the update gives it and keeps its value otherwise, \<^verbatim>\<open>last_updated\<close> is the
  current time (also when the update names it), and every other key is skipped.
\<close>

lemma update_canon_memory_fields:
  assumes "get_canon_memory lib env = Some canon"
      and "fs_writable env"
      and "distinct (map fst updates)"
      and "\<forall>key \<in> fst ` set updates. \<not> inherited_attr lib key"
  shows "update_canon_memory lib now updates ADMIN_READY env =
           (True, env\<lparr>canon_file := Some (Holds
              \<lparr>system_knowledge = dict_get updates ''system_knowledge'' (system_knowledge canon),
               model_info = dict_get updates ''model_info'' (model_info canon),
               locked = dict_get updates ''locked'' (locked canon),
               version = dict_get updates ''version'' (version canon),
               last_updated = PyDatetime now\<rparr>)\<rparr>)"
  using assms(1,2) apply_updates_fields [OF assms(3,4), of canon]
  by (simp add: update_canon_memory_def)

text \<open>
  A key that names an inherited attribute passes the \<^verbatim>\<open>hasattr\<close> guard and its assignment
  raises, which the handler turns into the result false.
\<close>

lemma apply_updates_inherited:
  assumes "inherited_attr lib key" "key \<notin> set CanonMemory_fields"
  shows "apply_updates lib canon [(key, v)] = Inl ValueError"
  using assms by (auto simp: hasattr_def setattr_def CanonMemory_fields_def)

lemma update_canon_memory_inherited:
  assumes "inherited_attr lib key" "key \<notin> set CanonMemory_fields"
  shows "update_canon_memory lib now [(key, v)] ADMIN_READY env = (False, env)"
  using apply_updates_inherited [OF assms]
  by (simp add: update_canon_memory_def split: option.splits)

text \<open>
  C2. The update \<^verbatim>\<open>{"model_dump": 1}\<close>, called with the admin tier on the canon the bootstrap
  wrote. \<^verbatim>\<open>model_dump\<close> is not one of the four names, yet it is not skipped: \<^verbatim>\<open>hasattr\<close> finds
  the method of that name, the assignment raises, the handler catches the exception, and
  the call returns false with nothing written.
\<close>

theorem update_canon_memory_model_dump:
  "get_canon_memory base_model booted_storage = Some canon_data
   \<and> update_canon_memory base_model 7 [(''model_dump'', PyInt 1)] ADMIN_READY booted_storage
       = (False, booted_storage)"
proof -
  have "inherited_attr base_model ''model_dump''" by (simp add: base_model_def)
  moreover have "''model_dump'' \<notin> set CanonMemory_fields" by (simp add: CanonMemory_fields_def)
  ultimately show ?thesis
    using update_canon_memory_inherited get_canon_booted by simp
qed

text \<open>
  C3. For every update and every tier other than \<^verbatim>\<open>ADMIN_READY\<close>, \<^verbatim>\<open>update_canon_memory\<close>
  returns false and leaves the storage, the canon file with all its fields included, exactly
  as it was.
\<close>

theorem update_canon_memory_unauthorized:
  assumes "tier \<noteq> ADMIN_READY"
  shows "update_canon_memory lib now updates tier env = (False, env)"
  using assms by (simp add: update_canon_memory_def)

theorem update_canon_memory_unauthorized_witness:
  "update_canon_memory base_model 7 [(''locked'', PyBool False)] ADVISORY booted_storage
     = (False, booted_storage)
   \<and> canon_file booted_storage = Some (Holds canon_data)"
proof -
  have "ADVISORY \<noteq> ADMIN_READY" by simp
  from update_canon_memory_unauthorized [OF this] booted_storage_canon show ?thesis by simp
qed

text \<open>
  C9. When reading the canon yields nothing (no file, or one that cannot be decoded or
  validated), \<^verbatim>\<open>update_canon_memory\<close> with the admin tier returns false for every update and
  leaves the storage as it was: no canon file is created.
\<close>

theorem update_canon_memory_uninitialized:
  assumes "get_canon_memory lib env = None"
  shows "update_canon_memory lib now updates ADMIN_READY env = (False, env)"
  using assms by (simp add: update_canon_memory_def)

theorem update_canon_memory_uninitialized_witness:
  "update_canon_memory base_model 7 [(''locked'', PyBool False)] ADMIN_READY blank_storage
     = (False, blank_storage)
   \<and> canon_file blank_storage = None"
proof -
  have "get_canon_memory base_model blank_storage = None"
    by (simp add: get_canon_memory_def blank_storage_def)
  from update_canon_memory_uninitialized [OF this] show ?thesis
    by (simp add: blank_storage_def)
qed

section \<open>Properties of the context weave\<close>

text \<open>
  With file storage, or with a Redis server that answers, \<^verbatim>\<open>build_memory_context\<close> returns a
  context that carries the supplied tier; unreadable files degrade to an empty history, no
  preferences and no canon.
\<close>

lemma get_session_history_ok:
  assumes "storage_type self \<noteq> ''redis'' \<or> redis_reachable env \<or> session_id \<in> dom (sessions self)"
  shows "\<exists>ms self'. get_session_history session_id (self, env) = (Inr ms, self', env)
            \<and> storage_type self' = storage_type self"
  using assms
  by (auto simp: get_session_history_def load_session_file_def load_session_redis_def
        split: option.splits blob.splits)

lemma get_user_preferences_ok:
  assumes "storage_type self \<noteq> ''redis'' \<or> redis_reachable env"
  shows "\<exists>p. get_user_preferences uid (self, env) = Inr p"
  using assms
  by (auto simp: get_user_preferences_def load_preferences_redis_def split: option.splits blob.splits)

lemma build_memory_context_ok:
  assumes "storage_type self \<noteq> ''redis'' \<or> redis_reachable env"
  shows "\<exists>ctx st'. build_memory_context lib session_id uid tier (self, env) = (Inr ctx, st')
            \<and> authorization_tier ctx = tier"
proof -
  from assms have "storage_type self \<noteq> ''redis'' \<or> redis_reachable env \<or> session_id \<in> dom (sessions self)"
    by blast
  from get_session_history_ok [OF this]
  obtain ms self' where g: "get_session_history session_id (self, env) = (Inr ms, self', env)"
    and ty: "storage_type self' = storage_type self" by blast
  from assms ty have "storage_type self' \<noteq> ''redis'' \<or> redis_reachable env" by simp
  from get_user_preferences_ok [OF this]
  have p: "\<exists>p. get_user_preferences u (self', env) = Inr p" for u .
  show ?thesis
  proof (cases uid)
    case None
    then show ?thesis by (simp add: build_memory_context_def g)
  next
    case (Some u)
    from p [of u] obtain q where "get_user_preferences u (self', env) = Inr q" ..
    with Some show ?thesis by (simp add: build_memory_context_def g)
  qed
qed

lemma build_memory_context_file_degrades:
  assumes "storage_type self = ''file''"
      and "sessions self session_id = None"
      and "session_files env session_id = Some Unreadable"
      and "preference_files env u = Some Unreadable"
      and "canon_file env = Some Unreadable"
  shows "build_memory_context lib session_id (Some u) tier (self, env) =
           (Inr \<lparr>session_memory = [], user_preferences = None, canon_memory = None,
                 authorization_tier = tier\<rparr>, self, env)"
  using assms
  by (simp add: build_memory_context_def get_session_history_def load_session_file_def
        get_user_preferences_def load_preferences_file_def get_canon_memory_def)

text \<open>
  C4. The service is configured for Redis (the constructor succeeds, the client connects
  lazily) and the server does not answer. \<^verbatim>\<open>build_memory_context\<close> for a session that is not
  cached raises \<^verbatim>\<open>ConnectionError\<close> out of the session fetch; for a cached session and a user
  id it raises out of the preference fetch. In both loaders the Redis command stands
  before the \<^verbatim>\<open>try\<close> block.
\<close>

theorem build_memory_context_redis_unreachable:
  "MemoryService_init (default_settings\<lparr>MEMORY_STORAGE_TYPE := ''redis''\<rparr>) True = redis_service
   \<and> fst (build_memory_context base_model ''s1'' None BASIC
            (redis_service, booted_storage\<lparr>redis_reachable := False\<rparr>)) = Inl ConnectionError
   \<and> fst (build_memory_context base_model ''s1'' (Some ''u1'') BASIC
            (redis_service\<lparr>sessions := [''s1'' \<mapsto> []]\<rparr>, booted_storage\<lparr>redis_reachable := False\<rparr>))
       = Inl ConnectionError"
  by (simp add: MemoryService_init_def default_settings_def redis_service_def
        build_memory_context_def get_session_history_def load_session_redis_def
        get_user_preferences_def load_preferences_redis_def)

section \<open>Properties of the preference store\<close>

lemma save_user_preferences_file:
  assumes "storage_type self = ''file''" and "fs_writable env"
  shows "save_user_preferences now p (self, env) =
           (Inr (), p\<lparr>updated_at := now\<rparr>, self,
            env\<lparr>preference_files := (preference_files env)(user_id p \<mapsto> Holds (p\<lparr>updated_at := now\<rparr>))\<rparr>)"
  using assms by (simp add: save_user_preferences_def save_preferences_file_def Let_def)

text \<open>
  C8. The validator rejects the empty user id, but the endpoint does not call it: a body
  whose \<^verbatim>\<open>user_id\<close> is the empty string is stamped, saved under the empty user id and returned.
\<close>

theorem update_user_preferences_empty_user_id:
  "validate_user_id '''' = (False, Some ''User ID cannot be empty'')
   \<and> update_user_preferences 9
        \<lparr>user_id = '''', tone_preference = Some ''balanced'', max_response_length = Some 500,
         enable_clarification_questions = True, custom_settings = None, updated_at = 8\<rparr>
        (file_service, blank_storage)
     = (Inr \<lparr>user_id = '''', tone_preference = Some ''balanced'', max_response_length = Some 500,
             enable_clarification_questions = True, custom_settings = None, updated_at = 9\<rparr>,
        file_service,
        blank_storage\<lparr>preference_files :=
          ['''' \<mapsto> Holds \<lparr>user_id = '''', tone_preference = Some ''balanced'',
                           max_response_length = Some 500, enable_clarification_questions = True,
                           custom_settings = None, updated_at = 9\<rparr>]\<rparr>)"
proof -
  have "storage_type file_service = ''file''" "fs_writable blank_storage"
    by (simp_all add: file_service_def blank_storage_def)
  from save_user_preferences_file [OF this] show ?thesis
    by (simp add: update_user_preferences_def validate_user_id_def blank_storage_def)
qed

section \<open>Properties of session ids\<close>

lemma hex_digit_in: "n < 16 \<Longrightarrow> hex_digit n \<in> set hex_digits"
  unfolding hex_digit_def by (rule nth_mem) (simp add: hex_digits_def)

lemma nibble_less: "unat (and w (15 :: 128 word)) < 16"
proof -
  have "and w 15 \<le> (15 :: 128 word)" by (rule word_and_le1)
  then have "unat (and w 15) \<le> unat (15 :: 128 word)" by (simp add: word_le_nat_alt)
  then show ?thesis by simp
qed

lemma UUID_hex_length: "length (UUID_hex u) = 32"
  by (simp add: UUID_hex_def)

lemma UUID_hex_chars: "c \<in> set (UUID_hex u) \<Longrightarrow> c \<in> set hex_digits"
  by (auto simp: UUID_hex_def intro!: hex_digit_in nibble_less)

lemma hex_subset_class: "set hex_digits \<subseteq> set (alnum @ ''_-'')"
  by (simp add: hex_digits_def alnum_def)

lemma hex_in_class: "c \<in> set hex_digits \<Longrightarrow> c \<in> set (alnum @ ''_-'')"
  using hex_subset_class by (rule subsetD)

lemma hex_not_newline: "c \<in> set hex_digits \<Longrightarrow> c \<noteq> CHR 0x0A"
  by (auto simp: hex_digits_def)

lemma prefix_in_class: "list_all (\<lambda>c. c \<in> set (alnum @ ''_-'')) ''session_''"
  by (simp add: alnum_def)

lemma take16_chars: "c \<in> set (take 16 (UUID_hex u)) \<Longrightarrow> c \<in> set hex_digits"
  by (rule UUID_hex_chars) (rule in_set_takeD)

lemma take16_length: "length (take 16 (UUID_hex u)) = 16"
  by (simp add: UUID_hex_length)

lemma generate_session_id_pattern: "SESSION_ID_PATTERN (generate_session_id u)"
proof -
  let ?h = "take 16 (UUID_hex u)"
  have ne: "?h \<noteq> []" using take16_length [of u] by auto
  then have "last ?h \<in> set ?h" by (rule last_in_set)
  then have "last ?h \<noteq> CHR 0x0A" by (intro hex_not_newline take16_chars)
  then have l: "last (generate_session_id u) \<noteq> CHR 0x0A"
    using ne by (simp add: generate_session_id_def)
  have a: "list_all (\<lambda>c. c \<in> set (alnum @ ''_-'')) ?h"
    unfolding list_all_iff by (intro ballI hex_in_class take16_chars)
  have "list_all (\<lambda>c. c \<in> set (alnum @ ''_-'')) (generate_session_id u)"
    unfolding generate_session_id_def list_all_append using prefix_in_class a by (rule conjI)
  with l show ?thesis
    by (simp add: SESSION_ID_PATTERN_def class_match_def generate_session_id_def)
qed

text \<open>
  C10. For every identifier, \<^verbatim>\<open>generate_session_id\<close> returns \<^verbatim>\<open>session_\<close> followed by 16
  lowercase hexadecimal digits, 24 characters in all; the result matches the pattern of
  session ids, is within the length limit, and \<^verbatim>\<open>validate_session_id\<close> accepts it.
\<close>

theorem generate_session_id_format:
  "take 8 (generate_session_id u) = ''session_''
   \<and> length (drop 8 (generate_session_id u)) = 16
   \<and> list_all (\<lambda>c. c \<in> set hex_digits) (drop 8 (generate_session_id u))
   \<and> length (generate_session_id u) = 24
   \<and> SESSION_ID_PATTERN (generate_session_id u)
   \<and> length (generate_session_id u) \<le> MAX_SESSION_ID_LENGTH
   \<and> validate_session_id (generate_session_id u) = (True, None)"
proof -
  have p: "take 8 (generate_session_id u) = ''session_''"
    by (simp add: generate_session_id_def)
  have d: "drop 8 (generate_session_id u) = take 16 (UUID_hex u)"
    by (simp add: generate_session_id_def)
  have h: "list_all (\<lambda>c. c \<in> set hex_digits) (take 16 (UUID_hex u))"
    unfolding list_all_iff by (intro ballI take16_chars)
  have n: "length (generate_session_id u) = 24"
    by (simp add: generate_session_id_def UUID_hex_length)
  have v: "validate_session_id (generate_session_id u) = (True, None)"
    using n generate_session_id_pattern [of u]
    by (auto simp: validate_session_id_def MAX_SESSION_ID_LENGTH_def)
  from p d h n v generate_session_id_pattern [of u] take16_length [of u] show ?thesis
    by (simp add: MAX_SESSION_ID_LENGTH_def)
qed

theorem generate_session_id_format_witness:
  "generate_session_id 0x0123456789abcdef0f1e2d3c4b5a6978 = ''session_0123456789abcdef''
   \<and> validate_session_id ''session_0123456789abcdef'' = (True, None)"
proof -
  have g: "generate_session_id 0x0123456789abcdef0f1e2d3c4b5a6978 = ''session_0123456789abcdef''"
    by (simp add: generate_session_id_def UUID_hex_def hex_digit_def hex_digits_def upt_rec [of _ 32] drop_bit_eq_div)
  from generate_session_id_format [of "0x0123456789abcdef0f1e2d3c4b5a6978"] show ?thesis
    unfolding g by simp
qed

end
